theory Spec2Isabelle
  imports Complex_Main
begin

section \<open>Python values used by the Vector class\<close>

text \<open>
  The exceptions the two source files can raise. \<open>ValueError\<close> and \<open>TypeError\<close> carry
  the message of the \<^verbatim>\<open>raise\<close> statement, since the source raises \<open>ValueError\<close> in two
  different places (empty data, length mismatch). \<open>IndexError\<close> comes from list indexing,
  \<open>ZeroDivisionError\<close> from float division, \<open>OverflowError\<close> from the conversion of an
  int to a float.
\<close>

datatype error =
    ValueError string
  | TypeError string
  | IndexError
  | ZeroDivisionError
  | OverflowError

text \<open>The names the specification gives to these failures.\<close>

definition InvalidArgument :: error where
  "InvalidArgument = ValueError ''Data cannot be empty''"

definition LengthMismatch :: error where
  "LengthMismatch = ValueError ''Vectors must be of same length''"

definition TypeMismatch :: error where
  "TypeMismatch = TypeError ''Operation only supported between Vector instances''"

definition OutOfRange :: error where
  "OutOfRange = IndexError"

definition DivisionByZero :: error where
  "DivisionByZero = ZeroDivisionError"

text \<open>Sequencing of computations that may raise: the first exception wins.\<close>

fun bind_result :: "error + 'a \<Rightarrow> ('a \<Rightarrow> error + 'b) \<Rightarrow> error + 'b" where
  "bind_result (Inl e) f = Inl e"
| "bind_result (Inr x) f = f x"

subsection \<open>Python floats (IEEE 754 binary64, round to nearest, ties to even)\<close>

text \<open>
  A float is a signed magnitude (the sign is \<open>True\<close> for negative numbers, so there are
  two zeros), an infinity, or NaN. The magnitude is kept as an exact rational; the
  operations round every exact result back to the binary64 grid with \<open>round64\<close>.
  \<open>NaN\<close> stands for every NaN: the sign and the payload of a NaN are not part of the model,
  which says of a result only that it is a NaN. No NaN is equal to anything under \<^verbatim>\<open>==\<close>.
\<close>

datatype pyfloat = Finite bool rat | Infinity bool | NaN

definition pow2 :: "int \<Rightarrow> rat" where
  "pow2 e = (if 0 \<le> e then 2 ^ nat e else 1 / 2 ^ nat (- e))"

function bit_length :: "int \<Rightarrow> nat" where
  "bit_length n = (if n \<le> 0 then 0 else Suc (bit_length (n div 2)))"
  by pat_completeness auto
termination
  by (relation "measure nat") auto

declare bit_length.simps [simp del]

text \<open>\<open>ilog2 q\<close> is the integer \<open>e\<close> with \<open>2 ^ e \<le> q < 2 ^ (e + 1)\<close>, for \<open>q > 0\<close>.\<close>

definition ilog2 :: "rat \<Rightarrow> int" where
  "ilog2 q =
     (let (a, b) = quotient_of q;
          e0 = int (bit_length a) - int (bit_length b)
      in if pow2 e0 \<le> q then e0 else e0 - 1)"

text \<open>
  Rounding of a magnitude \<open>q \<ge> 0\<close> with sign \<open>s\<close>: 53 significant bits, the smallest
  unit \<open>2 ^ -1074\<close> (subnormal numbers), overflow to infinity from \<open>2 ^ 1024\<close> on.
\<close>

definition round64 :: "bool \<Rightarrow> rat \<Rightarrow> pyfloat" where
  "round64 s q =
     (if q = 0 then Finite s 0
      else
        let u = max (ilog2 q - 52) (- 1074);
            t = q / pow2 u;
            m = \<lfloor>t\<rfloor>;
            r = t - of_int m;
            m' = (if r < 1 / 2 then m
                  else if 1 / 2 < r then m + 1
                  else if even m then m else m + 1);
            q' = of_int m' * pow2 u
        in if pow2 1024 \<le> q' then Infinity s else Finite s q')"

text \<open>The floats of the model that are binary64 numbers.\<close>

fun is_double :: "pyfloat \<Rightarrow> bool" where
  "is_double (Finite s q) = (0 \<le> q \<and> round64 s q = Finite s q)"
| "is_double (Infinity s) = True"
| "is_double NaN = True"


text \<open>The signed value of a finite float.\<close>

definition signed :: "bool \<Rightarrow> rat \<Rightarrow> rat" where
  "signed s q = (if s then - q else q)"

text \<open>Python's \<^verbatim>\<open>x == 0.0\<close> and \<^verbatim>\<open>x == y\<close> on floats: NaN equals nothing, the two zeros are equal.\<close>

fun float_is_zero :: "pyfloat \<Rightarrow> bool" where
  "float_is_zero (Finite s q) = (q = 0)"
| "float_is_zero (Infinity s) = False"
| "float_is_zero NaN = False"

fun float_eq :: "pyfloat \<Rightarrow> pyfloat \<Rightarrow> bool" where
  "float_eq (Finite s1 q1) (Finite s2 q2) = (signed s1 q1 = signed s2 q2)"
| "float_eq (Infinity s1) (Infinity s2) = (s1 = s2)"
| "float_eq x y = False"


fun float_neg :: "pyfloat \<Rightarrow> pyfloat" where
  "float_neg (Finite s q) = Finite (\<not> s) q"
| "float_neg (Infinity s) = Infinity (\<not> s)"
| "float_neg NaN = NaN"

fun float_add :: "pyfloat \<Rightarrow> pyfloat \<Rightarrow> pyfloat" where
  "float_add NaN y = NaN"
| "float_add x NaN = NaN"
| "float_add (Infinity s1) (Infinity s2) = (if s1 = s2 then Infinity s1 else NaN)"
| "float_add (Infinity s1) (Finite s2 q2) = Infinity s1"
| "float_add (Finite s1 q1) (Infinity s2) = Infinity s2"
| "float_add (Finite s1 q1) (Finite s2 q2) =
     (let v = signed s1 q1 + signed s2 q2
      in if v = 0 then Finite (s1 \<and> s2) 0 else round64 (v < 0) \<bar>v\<bar>)"

definition float_sub :: "pyfloat \<Rightarrow> pyfloat \<Rightarrow> pyfloat" where
  "float_sub x y = float_add x (float_neg y)"

fun float_mul :: "pyfloat \<Rightarrow> pyfloat \<Rightarrow> pyfloat" where
  "float_mul NaN y = NaN"
| "float_mul x NaN = NaN"
| "float_mul (Infinity s1) (Infinity s2) = Infinity (s1 \<noteq> s2)"
| "float_mul (Infinity s1) (Finite s2 q2) = (if q2 = 0 then NaN else Infinity (s1 \<noteq> s2))"
| "float_mul (Finite s1 q1) (Infinity s2) = (if q1 = 0 then NaN else Infinity (s1 \<noteq> s2))"
| "float_mul (Finite s1 q1) (Finite s2 q2) = round64 (s1 \<noteq> s2) (q1 * q2)"

text \<open>
  Python's float division \<^verbatim>\<open>x / y\<close>: a divisor equal to zero raises
  \<open>ZeroDivisionError\<close>, whatever the dividend is; no infinity or NaN is produced from it.
\<close>

fun float_quotient :: "pyfloat \<Rightarrow> pyfloat \<Rightarrow> pyfloat" where
  "float_quotient NaN y = NaN"
| "float_quotient x NaN = NaN"
| "float_quotient (Infinity s1) (Infinity s2) = NaN"
| "float_quotient (Infinity s1) (Finite s2 q2) = Infinity (s1 \<noteq> s2)"
| "float_quotient (Finite s1 q1) (Infinity s2) = Finite (s1 \<noteq> s2) 0"
| "float_quotient (Finite s1 q1) (Finite s2 q2) = round64 (s1 \<noteq> s2) (q1 / q2)"

definition float_truediv :: "pyfloat \<Rightarrow> pyfloat \<Rightarrow> error + pyfloat" where
  "float_truediv x y =
     (if float_is_zero y then Inl ZeroDivisionError else Inr (float_quotient x y))"

text \<open>
  \<^verbatim>\<open>math.sqrt\<close>. \<open>isqrt n\<close> is the integer square root, found bit by bit. The square
  root of \<open>q\<close> is computed with two bits more than the 53 of the result, with one half
  added when it is inexact, so that \<open>round64\<close> rounds it as it would round the exact root.
\<close>

fun isqrt_from :: "nat \<Rightarrow> int \<Rightarrow> int \<Rightarrow> int" where
  "isqrt_from 0 n r = r"
| "isqrt_from (Suc k) n r =
     (let c = r + 2 ^ k in isqrt_from k n (if c * c \<le> n then c else r))"

definition isqrt :: "int \<Rightarrow> int" where
  "isqrt n = isqrt_from (bit_length n) n 0"

definition sqrt_rat :: "rat \<Rightarrow> rat" where
  "sqrt_rat q =
     (let h = ilog2 q div 2 - 54;
          x = q / pow2 (2 * h);
          r = of_int (isqrt \<lfloor>x\<rfloor>)
      in (if r * r = x then r else r + 1 / 2) * pow2 h)"

fun math_sqrt_float :: "pyfloat \<Rightarrow> error + pyfloat" where
  "math_sqrt_float NaN = Inr NaN"
| "math_sqrt_float (Infinity s) =
     (if s then Inl (ValueError ''math domain error'') else Inr (Infinity False))"
| "math_sqrt_float (Finite s q) =
     (if q = 0 then Inr (Finite s 0)
      else if s then Inl (ValueError ''math domain error'')
      else Inr (round64 False (sqrt_rat q)))"

subsection \<open>Dynamically typed values\<close>

text \<open>
  The values a caller can put into the list given to the constructor, and the values
  \<^verbatim>\<open>sum\<close> can return (the int \<open>0\<close> for an empty iterable, a float otherwise).
\<close>

datatype pyval = PyFloat pyfloat | PyInt int | PyBool bool | PyStr string | PyNone

text \<open>\<^verbatim>\<open>isinstance(element, float)\<close>.\<close>

fun isinstance_float :: "pyval \<Rightarrow> bool" where
  "isinstance_float (PyFloat x) = True"
| "isinstance_float v = False"

text \<open>Conversion of an int to a float, as \<^verbatim>\<open>0 + x\<close> and \<^verbatim>\<open>math.sqrt(0)\<close> do it.\<close>

definition float_of_int :: "int \<Rightarrow> error + pyfloat" where
  "float_of_int i =
     (case round64 (i < 0) (of_int \<bar>i\<bar>) of
        Infinity s \<Rightarrow> Inl OverflowError
      | x \<Rightarrow> Inr x)"

fun math_sqrt :: "pyval \<Rightarrow> error + pyfloat" where
  "math_sqrt (PyFloat x) = math_sqrt_float x"
| "math_sqrt (PyInt i) = bind_result (float_of_int i) math_sqrt_float"
| "math_sqrt (PyBool b) = math_sqrt_float (Finite False (if b then 1 else 0))"
| "math_sqrt (PyStr s) = Inl (TypeError ''must be real number, not str'')"
| "math_sqrt PyNone = Inl (TypeError ''must be real number, not NoneType'')"

text \<open>
  \<^verbatim>\<open>sum(iterable)\<close> over floats: the start value is the int \<open>0\<close>, the first item is added
  to it as \<open>0.0 + x\<close>, the others are added from left to right.
\<close>

fun py_sum :: "pyfloat list \<Rightarrow> pyval" where
  "py_sum [] = PyInt 0"
| "py_sum (x # xs) = PyFloat (foldl float_add (float_add (Finite False 0) x) xs)"

section \<open>The Vector class\<close>

record Vector =
  data :: "pyfloat list"

text \<open>
  \<^verbatim>\<open>__post_init__\<close>: the list must not be empty, and the loop raises at the first element
  that is not a float. The elements that passed the check are the vector's data.
\<close>

fun check_elements :: "pyval list \<Rightarrow> error + pyfloat list" where
  "check_elements [] = Inr []"
| "check_elements (PyFloat x # es) =
     bind_result (check_elements es) (\<lambda>xs. Inr (x # xs))"
| "check_elements (e # es) = Inl (TypeError ''Data must be a float or int'')"

definition new_Vector :: "pyval list \<Rightarrow> error + Vector" where
  "new_Vector d =
     (if d = [] then Inl (ValueError ''Data cannot be empty'')
      else bind_result (check_elements d) (\<lambda>xs. Inr \<lparr>data = xs\<rparr>))"

text \<open>The constructor applied to a list of floats computed by an operation.\<close>

definition Vector_of :: "pyfloat list \<Rightarrow> error + Vector" where
  "Vector_of xs = new_Vector (map PyFloat xs)"

definition Vector_neg :: "Vector \<Rightarrow> error + Vector" where
  "Vector_neg self = Vector_of (map float_neg (data self))"

definition Vector_len :: "Vector \<Rightarrow> int" where
  "Vector_len self = int (length (data self))"

text \<open>
  \<^verbatim>\<open>self.data[index]\<close> with an int index: Python list indexing, where a negative index
  counts from the end and an index out of range raises \<open>IndexError\<close>.
\<close>

definition Vector_getitem :: "Vector \<Rightarrow> int \<Rightarrow> error + pyfloat" where
  "Vector_getitem self index =
     (let n = int (length (data self));
          j = (if index < 0 then index + n else index)
      in if 0 \<le> j \<and> j < n then Inr (data self ! nat j) else Inl IndexError)"

subsection \<open>The validating decorator\<close>

text \<open>The second operand of a binary operator can be any object.\<close>

datatype operand = IsVector Vector | NotVector pyval

definition validate_vector ::
  "(Vector \<Rightarrow> Vector \<Rightarrow> error + 'r) \<Rightarrow> Vector \<Rightarrow> operand \<Rightarrow> error + 'r" where
  "validate_vector function vector_1 vector_2 =
     (case vector_2 of
        NotVector x \<Rightarrow> Inl (TypeError ''Operation only supported between Vector instances'')
      | IsVector v2 \<Rightarrow>
          if Vector_len vector_1 \<noteq> Vector_len v2
          then Inl (ValueError ''Vectors must be of same length'')
          else function vector_1 v2)"

subsection \<open>Binary and scalar operations\<close>

text \<open>The bodies of the decorated methods, and the methods as the class exposes them.\<close>

definition add_body :: "Vector \<Rightarrow> Vector \<Rightarrow> error + Vector" where
  "add_body self other = Vector_of (map (\<lambda>(a, b). float_add a b) (zip (data self) (data other)))"

definition Vector_add :: "Vector \<Rightarrow> operand \<Rightarrow> error + Vector" where
  "Vector_add = validate_vector add_body"

definition sub_body :: "Vector \<Rightarrow> Vector \<Rightarrow> error + Vector" where
  "sub_body self other = Vector_of (map (\<lambda>(a, b). float_sub a b) (zip (data self) (data other)))"

definition Vector_sub :: "Vector \<Rightarrow> operand \<Rightarrow> error + Vector" where
  "Vector_sub = validate_vector sub_body"

definition Vector_mul :: "Vector \<Rightarrow> pyfloat \<Rightarrow> error + Vector" where
  "Vector_mul self scalar = Vector_of (map (\<lambda>a. float_mul a scalar) (data self))"

definition Vector_rmul :: "Vector \<Rightarrow> pyfloat \<Rightarrow> error + Vector" where
  "Vector_rmul self scalar = Vector_mul self scalar"

text \<open>
  A list comprehension whose element expression can raise: the elements are computed
  from left to right and the first exception ends the comprehension.
\<close>

fun map_result :: "('a \<Rightarrow> error + 'b) \<Rightarrow> 'a list \<Rightarrow> error + 'b list" where
  "map_result f [] = Inr []"
| "map_result f (x # xs) =
     bind_result (f x) (\<lambda>y. bind_result (map_result f xs) (\<lambda>ys. Inr (y # ys)))"

definition Vector_truediv :: "Vector \<Rightarrow> pyfloat \<Rightarrow> error + Vector" where
  "Vector_truediv self scalar =
     bind_result (map_result (\<lambda>a. float_truediv a scalar) (data self)) Vector_of"

definition matmul_body :: "Vector \<Rightarrow> Vector \<Rightarrow> error + pyval" where
  "matmul_body self other =
     Inr (py_sum (map (\<lambda>(a, b). float_mul a b) (zip (data self) (data other))))"

definition Vector_matmul :: "Vector \<Rightarrow> operand \<Rightarrow> error + pyval" where
  "Vector_matmul = validate_vector matmul_body"

definition Vector_abs :: "Vector \<Rightarrow> error + pyfloat" where
  "Vector_abs self = bind_result (Vector_matmul self (IsVector self)) math_sqrt"

text \<open>\<^verbatim>\<open>[a / abs(self) for a in self.data]\<close>: the magnitude is computed again for every element.\<close>

definition Vector_normalize :: "Vector \<Rightarrow> error + Vector" where
  "Vector_normalize self =
     bind_result
       (map_result (\<lambda>a. bind_result (Vector_abs self) (\<lambda>m. float_truediv a m)) (data self))
       Vector_of"

definition Vector_distance :: "Vector \<Rightarrow> operand \<Rightarrow> error + pyfloat" where
  "Vector_distance self other = bind_result (Vector_sub self other) Vector_abs"

section \<open>The Vector class over an explicit store\<close>

text \<open>
  The same methods with the objects they create made explicit. A store holds the list
  objects and the Vector objects; an address is the position of an object in the store,
  and a new object is put at the end. A Vector object holds the address of the list in
  its \<open>data\<close> slot. Floats and ints are immutable values and are not kept in the store.
\<close>

type_synonym addr = nat

record heap =
  lists :: "pyval list list"
  vectors :: "addr list"

definition alloc_list :: "heap \<Rightarrow> pyval list \<Rightarrow> addr \<times> heap" where
  "alloc_list h d = (length (lists h), h\<lparr>lists := lists h @ [d]\<rparr>)"

definition alloc_vector :: "heap \<Rightarrow> addr \<Rightarrow> addr \<times> heap" where
  "alloc_vector h l = (length (vectors h), h\<lparr>vectors := vectors h @ [l]\<rparr>)"

text \<open>Reading a list object; \<open>None\<close> when the address is not the address of a list.\<close>

definition list_at :: "heap \<Rightarrow> addr \<Rightarrow> pyval list option" where
  "list_at h l = (if l < length (lists h) then Some (lists h ! l) else None)"

fun floats_of :: "pyval list \<Rightarrow> pyfloat list option" where
  "floats_of [] = Some []"
| "floats_of (PyFloat x # es) = map_option ((#) x) (floats_of es)"
| "floats_of (e # es) = None"

text \<open>
  \<^verbatim>\<open>self.data\<close> read as a list of floats; \<open>None\<close> when \<open>self\<close> is not the address of a
  Vector, or when its list holds something that is not a float.
\<close>

definition self_data :: "heap \<Rightarrow> addr \<Rightarrow> pyfloat list option" where
  "self_data h self =
     (if self < length (vectors h)
      then Option.bind (list_at h (vectors h ! self)) floats_of
      else None)"

text \<open>
  \<^verbatim>\<open>Vector(data)\<close>: the generated \<^verbatim>\<open>__init__\<close> creates the object and stores the reference to
  the list it is given (the list is not copied), then \<^verbatim>\<open>__post_init__\<close> checks the list.
  When the check raises, the new object is unreachable.
\<close>

definition heap_Vector :: "heap \<Rightarrow> addr \<Rightarrow> ((error + addr) \<times> heap) option" where
  "heap_Vector h l =
     (case list_at h l of
        None \<Rightarrow> None
      | Some d \<Rightarrow>
          let (self, h') = alloc_vector h l
          in Some (case new_Vector d of Inl e \<Rightarrow> Inl e | Inr x \<Rightarrow> Inr self, h'))"

text \<open>\<^verbatim>\<open>Vector([...])\<close>: the list comprehension creates a new list, given to the constructor.\<close>

definition heap_Vector_of :: "heap \<Rightarrow> pyfloat list \<Rightarrow> ((error + addr) \<times> heap) option" where
  "heap_Vector_of h xs = (let (l, h') = alloc_list h (map PyFloat xs) in heap_Vector h' l)"

text \<open>A comprehension whose element expression can raise: nothing is constructed then.\<close>

definition heap_Vector_of_result ::
  "heap \<Rightarrow> error + pyfloat list \<Rightarrow> ((error + addr) \<times> heap) option" where
  "heap_Vector_of_result h r =
     (case r of Inl e \<Rightarrow> Some (Inl e, h) | Inr xs \<Rightarrow> heap_Vector_of h xs)"

definition heap_neg :: "heap \<Rightarrow> addr \<Rightarrow> ((error + addr) \<times> heap) option" where
  "heap_neg h self =
     (case self_data h self of
        None \<Rightarrow> None
      | Some xs \<Rightarrow> heap_Vector_of h (map float_neg xs))"

definition heap_len :: "heap \<Rightarrow> addr \<Rightarrow> int option" where
  "heap_len h self = map_option (\<lambda>xs. Vector_len \<lparr>data = xs\<rparr>) (self_data h self)"

definition heap_getitem :: "heap \<Rightarrow> addr \<Rightarrow> int \<Rightarrow> (error + pyfloat) option" where
  "heap_getitem h self index =
     map_option (\<lambda>xs. Vector_getitem \<lparr>data = xs\<rparr> index) (self_data h self)"

text \<open>The second operand of a binary operator: a reference to a Vector, or anything else.\<close>

datatype heap_operand = RefVector addr | Other pyval

definition heap_validate_vector ::
  "(heap \<Rightarrow> addr \<Rightarrow> addr \<Rightarrow> ((error + 'r) \<times> heap) option) \<Rightarrow>
   heap \<Rightarrow> addr \<Rightarrow> heap_operand \<Rightarrow> ((error + 'r) \<times> heap) option" where
  "heap_validate_vector function h vector_1 vector_2 =
     (case vector_2 of
        Other x \<Rightarrow>
          Some (Inl (TypeError ''Operation only supported between Vector instances''), h)
      | RefVector v2 \<Rightarrow>
          (case (heap_len h vector_1, heap_len h v2) of
             (Some n1, Some n2) \<Rightarrow>
               if n1 \<noteq> n2
               then Some (Inl (ValueError ''Vectors must be of same length''), h)
               else function h vector_1 v2
           | _ \<Rightarrow> None))"

definition heap_add_body :: "heap \<Rightarrow> addr \<Rightarrow> addr \<Rightarrow> ((error + addr) \<times> heap) option" where
  "heap_add_body h self other =
     (case (self_data h self, self_data h other) of
        (Some xs, Some ys) \<Rightarrow> heap_Vector_of h (map (\<lambda>(a, b). float_add a b) (zip xs ys))
      | _ \<Rightarrow> None)"

definition heap_add :: "heap \<Rightarrow> addr \<Rightarrow> heap_operand \<Rightarrow> ((error + addr) \<times> heap) option" where
  "heap_add = heap_validate_vector heap_add_body"

definition heap_sub_body :: "heap \<Rightarrow> addr \<Rightarrow> addr \<Rightarrow> ((error + addr) \<times> heap) option" where
  "heap_sub_body h self other =
     (case (self_data h self, self_data h other) of
        (Some xs, Some ys) \<Rightarrow> heap_Vector_of h (map (\<lambda>(a, b). float_sub a b) (zip xs ys))
      | _ \<Rightarrow> None)"

definition heap_sub :: "heap \<Rightarrow> addr \<Rightarrow> heap_operand \<Rightarrow> ((error + addr) \<times> heap) option" where
  "heap_sub = heap_validate_vector heap_sub_body"

definition heap_mul :: "heap \<Rightarrow> addr \<Rightarrow> pyfloat \<Rightarrow> ((error + addr) \<times> heap) option" where
  "heap_mul h self scalar =
     (case self_data h self of
        None \<Rightarrow> None
      | Some xs \<Rightarrow> heap_Vector_of h (map (\<lambda>a. float_mul a scalar) xs))"

definition heap_rmul :: "heap \<Rightarrow> addr \<Rightarrow> pyfloat \<Rightarrow> ((error + addr) \<times> heap) option" where
  "heap_rmul h self scalar = heap_mul h self scalar"

definition heap_truediv :: "heap \<Rightarrow> addr \<Rightarrow> pyfloat \<Rightarrow> ((error + addr) \<times> heap) option" where
  "heap_truediv h self scalar =
     (case self_data h self of
        None \<Rightarrow> None
      | Some xs \<Rightarrow> heap_Vector_of_result h (map_result (\<lambda>a. float_truediv a scalar) xs))"

text \<open>
  \<^verbatim>\<open>__matmul__\<close> and \<^verbatim>\<open>__abs__\<close> build no list and no Vector: they read the operands and
  return a number.
\<close>

definition heap_matmul_body :: "heap \<Rightarrow> addr \<Rightarrow> addr \<Rightarrow> ((error + pyval) \<times> heap) option" where
  "heap_matmul_body h self other =
     (case (self_data h self, self_data h other) of
        (Some xs, Some ys) \<Rightarrow> Some (Inr (py_sum (map (\<lambda>(a, b). float_mul a b) (zip xs ys))), h)
      | _ \<Rightarrow> None)"

definition heap_matmul :: "heap \<Rightarrow> addr \<Rightarrow> heap_operand \<Rightarrow> ((error + pyval) \<times> heap) option" where
  "heap_matmul = heap_validate_vector heap_matmul_body"

definition heap_abs :: "heap \<Rightarrow> addr \<Rightarrow> ((error + pyfloat) \<times> heap) option" where
  "heap_abs h self =
     (case heap_matmul h self (RefVector self) of
        None \<Rightarrow> None
      | Some (r, h') \<Rightarrow> Some (bind_result r math_sqrt, h'))"

text \<open>
  \<^verbatim>\<open>normalize\<close>: the elements of the comprehension, each with its own call of \<^verbatim>\<open>abs(self)\<close>,
  then the constructor.
\<close>

fun heap_quotients ::
  "heap \<Rightarrow> addr \<Rightarrow> pyfloat list \<Rightarrow> ((error + pyfloat list) \<times> heap) option" where
  "heap_quotients h self [] = Some (Inr [], h)"
| "heap_quotients h self (a # as) =
     (case heap_abs h self of
        None \<Rightarrow> None
      | Some (Inl e, h1) \<Rightarrow> Some (Inl e, h1)
      | Some (Inr m, h1) \<Rightarrow>
          (case float_truediv a m of
             Inl e \<Rightarrow> Some (Inl e, h1)
           | Inr y \<Rightarrow>
               (case heap_quotients h1 self as of
                  None \<Rightarrow> None
                | Some (Inl e, h2) \<Rightarrow> Some (Inl e, h2)
                | Some (Inr ys, h2) \<Rightarrow> Some (Inr (y # ys), h2))))"

definition heap_normalize :: "heap \<Rightarrow> addr \<Rightarrow> ((error + addr) \<times> heap) option" where
  "heap_normalize h self =
     (case self_data h self of
        None \<Rightarrow> None
      | Some xs \<Rightarrow>
          (case heap_quotients h self xs of
             None \<Rightarrow> None
           | Some (r, h1) \<Rightarrow> heap_Vector_of_result h1 r))"

text \<open>\<^verbatim>\<open>distance\<close>: the Vector \<^verbatim>\<open>self - other\<close> is created, then its magnitude is taken.\<close>

definition heap_distance ::
  "heap \<Rightarrow> addr \<Rightarrow> heap_operand \<Rightarrow> ((error + pyfloat) \<times> heap) option" where
  "heap_distance h self other =
     (case heap_sub h self other of
        None \<Rightarrow> None
      | Some (Inl e, h1) \<Rightarrow> Some (Inl e, h1)
      | Some (Inr d, h1) \<Rightarrow> heap_abs h1 d)"

subsection \<open>Calls and their outcome\<close>

datatype call =
    Construct addr
  | Neg addr
  | Len addr
  | GetItem addr int
  | Add addr heap_operand
  | Sub addr heap_operand
  | Mul addr pyfloat
  | RMul addr pyfloat
  | TrueDiv addr pyfloat
  | MatMul addr heap_operand
  | Abs addr
  | Normalize addr
  | Distance addr heap_operand

datatype result = RVector addr | RValue pyval

definition returns_vector :: "((error + addr) \<times> heap) option \<Rightarrow> ((error + result) \<times> heap) option" where
  "returns_vector = map_option (map_prod (map_sum id RVector) id)"

definition returns_float :: "((error + pyfloat) \<times> heap) option \<Rightarrow> ((error + result) \<times> heap) option" where
  "returns_float = map_option (map_prod (map_sum id (RValue \<circ> PyFloat)) id)"

fun exec :: "heap \<Rightarrow> call \<Rightarrow> ((error + result) \<times> heap) option" where
  "exec h (Construct l) = returns_vector (heap_Vector h l)"
| "exec h (Neg v) = returns_vector (heap_neg h v)"
| "exec h (Len v) = map_option (\<lambda>n. (Inr (RValue (PyInt n)), h)) (heap_len h v)"
| "exec h (GetItem v i) =
     map_option (\<lambda>r. (map_sum id (RValue \<circ> PyFloat) r, h)) (heap_getitem h v i)"
| "exec h (Add v w) = returns_vector (heap_add h v w)"
| "exec h (Sub v w) = returns_vector (heap_sub h v w)"
| "exec h (Mul v k) = returns_vector (heap_mul h v k)"
| "exec h (RMul v k) = returns_vector (heap_rmul h v k)"
| "exec h (TrueDiv v k) = returns_vector (heap_truediv h v k)"
| "exec h (MatMul v w) = map_option (map_prod (map_sum id RValue) id) (heap_matmul h v w)"
| "exec h (Abs v) = returns_float (heap_abs h v)"
| "exec h (Normalize v) = returns_vector (heap_normalize h v)"
| "exec h (Distance v w) = returns_float (heap_distance h v w)"

text \<open>The references a call is given point to objects of the store.\<close>

fun operand_ok :: "heap \<Rightarrow> heap_operand \<Rightarrow> bool" where
  "operand_ok h (RefVector w) = (self_data h w \<noteq> None)"
| "operand_ok h (Other x) = True"

fun readable :: "heap \<Rightarrow> call \<Rightarrow> bool" where
  "readable h (Construct l) = (l < length (lists h))"
| "readable h (Neg v) = (self_data h v \<noteq> None)"
| "readable h (Len v) = (self_data h v \<noteq> None)"
| "readable h (GetItem v i) = (self_data h v \<noteq> None)"
| "readable h (Add v w) = (self_data h v \<noteq> None \<and> operand_ok h w)"
| "readable h (Sub v w) = (self_data h v \<noteq> None \<and> operand_ok h w)"
| "readable h (Mul v k) = (self_data h v \<noteq> None)"
| "readable h (RMul v k) = (self_data h v \<noteq> None)"
| "readable h (TrueDiv v k) = (self_data h v \<noteq> None)"
| "readable h (MatMul v w) = (self_data h v \<noteq> None \<and> operand_ok h w)"
| "readable h (Abs v) = (self_data h v \<noteq> None)"
| "readable h (Normalize v) = (self_data h v \<noteq> None)"
| "readable h (Distance v w) = (self_data h v \<noteq> None \<and> operand_ok h w)"

text \<open>\<open>extends h h'\<close>: every object of \<open>h\<close> is an object of \<open>h'\<close>, at the same address and unchanged.\<close>

definition extends :: "heap \<Rightarrow> heap \<Rightarrow> bool" where
  "extends h h' \<longleftrightarrow>
     take (length (lists h)) (lists h') = lists h \<and>
     take (length (vectors h)) (vectors h') = vectors h"

text \<open>
  The outcome of a method that returns a Vector: nothing of the store has changed, and a
  Vector that is returned is a new object whose list is a new object too.
\<close>

fun new_vector_outcome :: "heap \<Rightarrow> ((error + addr) \<times> heap) option \<Rightarrow> bool" where
  "new_vector_outcome h None = False"
| "new_vector_outcome h (Some (Inl e, h')) = extends h h'"
| "new_vector_outcome h (Some (Inr a, h')) =
     (extends h h' \<and> length (vectors h) \<le> a \<and> a < length (vectors h') \<and>
      length (lists h) \<le> vectors h' ! a \<and> self_data h' a \<noteq> None)"


text \<open>The values that the references of the store stand for.\<close>

fun operand_value :: "heap \<Rightarrow> heap_operand \<Rightarrow> operand option" where
  "operand_value h (RefVector w) = map_option (\<lambda>ys. IsVector \<lparr>data = ys\<rparr>) (self_data h w)"
| "operand_value h (Other x) = Some (NotVector x)"

fun vector_result :: "heap \<Rightarrow> error + addr \<Rightarrow> (error + Vector) option" where
  "vector_result h (Inl e) = Some (Inl e)"
| "vector_result h (Inr a) = map_option (\<lambda>xs. Inr \<lparr>data = xs\<rparr>) (self_data h a)"

section \<open>Auxiliary notions of the proofs\<close>



section \<open>Construction and indexing\<close>

lemma check_elements_floats: "check_elements (map PyFloat xs) = Inr xs"
  by (induction xs) simp_all

lemma check_elements_all_float:
  "list_all isinstance_float d \<Longrightarrow> \<exists>xs. check_elements d = Inr xs \<and> d = map PyFloat xs"
proof (induction d)
  case Nil
  then show ?case by simp
next
  case (Cons e d)
  then show ?case by (cases e) auto
qed

lemma check_elements_not_float:
  "\<exists>x\<in>set d. \<not> isinstance_float x \<Longrightarrow>
   check_elements d = Inl (TypeError ''Data must be a float or int'')"
proof (induction d)
  case Nil
  then show ?case by simp
next
  case (Cons e d)
  show ?case
  proof (cases e)
    case (PyFloat x)
    with Cons have "check_elements d = Inl (TypeError ''Data must be a float or int'')"
      by simp
    with PyFloat show ?thesis by simp
  qed simp_all
qed

lemma check_elements_Inr: "check_elements d = Inr xs \<Longrightarrow> d = map PyFloat xs"
proof (induction d arbitrary: xs)
  case Nil
  then show ?case by simp
next
  case (Cons e d)
  then show ?case
    by (cases e; cases "check_elements d") auto
qed

lemma new_Vector_Inr: "new_Vector d = Inr v \<Longrightarrow> d \<noteq> [] \<and> d = map PyFloat (data v)"
  unfolding new_Vector_def
  by (cases "check_elements d") (auto split: if_splits dest: check_elements_Inr)

lemma Vector_of_Cons: "xs \<noteq> [] \<Longrightarrow> Vector_of xs = Inr \<lparr>data = xs\<rparr>"
  by (simp add: Vector_of_def new_Vector_def check_elements_floats)

lemma Vector_of_Nil: "Vector_of [] = Inl (ValueError ''Data cannot be empty'')"
  by (simp add: Vector_of_def new_Vector_def)

text \<open>
  Claim C2. Constructing a Vector from the empty list fails with \<open>InvalidArgument\<close>
  (the \<open>ValueError\<close> of \<^verbatim>\<open>__post_init__\<close>). Constructing from a non-empty list whose
  elements are all floats succeeds, and the length of the Vector is the length of the list.
\<close>

theorem construction:
  "new_Vector [] = Inl InvalidArgument \<and>
   (d \<noteq> [] \<and> list_all isinstance_float d \<longrightarrow>
      (\<exists>v. new_Vector d = Inr v \<and> Vector_len v = int (length d)))"
proof -
  have "new_Vector [] = Inl InvalidArgument"
    by (simp add: new_Vector_def InvalidArgument_def)
  moreover have "\<exists>v. new_Vector d = Inr v \<and> Vector_len v = int (length d)"
    if "d \<noteq> []" "list_all isinstance_float d"
  proof -
    from that(2) obtain xs where xs: "check_elements d = Inr xs" "d = map PyFloat xs"
      using check_elements_all_float by blast
    with that(1) have "new_Vector d = Inr \<lparr>data = xs\<rparr>"
      by (simp add: new_Vector_def)
    moreover from xs have "Vector_len \<lparr>data = xs\<rparr> = int (length d)"
      by (simp add: Vector_len_def)
    ultimately show ?thesis by blast
  qed
  ultimately show ?thesis by blast
qed

theorem construction_witness:
  "[PyFloat (Finite False 1), PyFloat (Infinity True), PyFloat NaN] \<noteq> [] \<and>
   list_all isinstance_float [PyFloat (Finite False 1), PyFloat (Infinity True), PyFloat NaN] \<and>
   (\<exists>v. new_Vector [PyFloat (Finite False 1), PyFloat (Infinity True), PyFloat NaN] = Inr v \<and>
        Vector_len v = 3)"
  using construction [of "[PyFloat (Finite False 1), PyFloat (Infinity True), PyFloat NaN]"]
  by simp

text \<open>
  Claim C10. A non-empty list with at least one element that is not a float (an int or
  a bool, for instance) is rejected with the \<open>TypeError\<close> whose message reads
  \<^verbatim>\<open>Data must be a float or int\<close>.
\<close>

theorem non_float_rejected:
  "d \<noteq> [] \<Longrightarrow> \<exists>x\<in>set d. \<not> isinstance_float x \<Longrightarrow>
   new_Vector d = Inl (TypeError ''Data must be a float or int'')"
  by (simp add: new_Vector_def check_elements_not_float)

theorem non_float_rejected_witness:
  "new_Vector [PyFloat (Finite False 1), PyInt 2] = Inl (TypeError ''Data must be a float or int'') \<and>
   new_Vector [PyBool True] = Inl (TypeError ''Data must be a float or int'')"
  using non_float_rejected [of "[PyFloat (Finite False 1), PyInt 2]"]
        non_float_rejected [of "[PyBool True]"]
  by simp

text \<open>
  Claim C9. For a Vector of length \<open>n\<close> and an index \<open>i\<close> with \<open>-n \<le> i \<le> -1\<close>, the
  access \<^verbatim>\<open>v[i]\<close> succeeds and returns the element at position \<open>n + i\<close>.
\<close>

theorem negative_index:
  "- Vector_len v \<le> i \<Longrightarrow> i \<le> - 1 \<Longrightarrow>
   Vector_getitem v i = Inr (data v ! nat (Vector_len v + i))"
  by (simp add: Vector_getitem_def Vector_len_def Let_def add.commute)

theorem negative_index_witness:
  "Vector_getitem \<lparr>data = [Finite False 1, Finite False 2, Finite False 3]\<rparr> (- 1) = Inr (Finite False 3)"
  using negative_index [of "\<lparr>data = [Finite False 1, Finite False 2, Finite False 3]\<rparr>" "- 1"]
  by (simp add: Vector_len_def)

text \<open>
  Claim C5 says that \<^verbatim>\<open>v[index]\<close> fails with \<open>OutOfRange\<close> for every index outside
  \<open>[0, len(v))\<close>. The index \<open>-1\<close> is outside that interval, and on a Vector of two
  elements \<^verbatim>\<open>v[-1]\<close> returns the last element.
\<close>

theorem indexing_counterexample:
  "new_Vector [PyFloat (Finite False 1), PyFloat (Finite False 2)]
     = Inr \<lparr>data = [Finite False 1, Finite False 2]\<rparr> \<and>
   Vector_len \<lparr>data = [Finite False 1, Finite False 2]\<rparr> = 2 \<and>
   Vector_getitem \<lparr>data = [Finite False 1, Finite False 2]\<rparr> (- 1) = Inr (Finite False 2) \<and>
   Vector_getitem \<lparr>data = [Finite False 1, Finite False 2]\<rparr> (- 1) \<noteq> Inl OutOfRange"
  by (simp add: new_Vector_def Vector_len_def Vector_getitem_def)

text \<open>
  Claim C5, amended. For a Vector \<open>v\<close> constructed from \<open>d\<close>: \<^verbatim>\<open>v[i]\<close> is \<^verbatim>\<open>d[i]\<close> for
  every \<open>i\<close> in \<open>[0, len(v))\<close>; \<^verbatim>\<open>v[index]\<close> fails with \<open>OutOfRange\<close> for every
  \<open>index \<ge> len(v)\<close> and every \<open>index < -len(v)\<close>; in particular \<^verbatim>\<open>v[len(v)]\<close> fails.
\<close>

theorem indexing:
  "new_Vector d = Inr v \<Longrightarrow>
   (0 \<le> i \<and> i < Vector_len v \<longrightarrow>
      (\<exists>x. Vector_getitem v i = Inr x \<and> PyFloat x = d ! nat i)) \<and>
   (Vector_len v \<le> i \<or> i < - Vector_len v \<longrightarrow> Vector_getitem v i = Inl OutOfRange) \<and>
   Vector_getitem v (Vector_len v) = Inl OutOfRange"
proof -
  assume "new_Vector d = Inr v"
  then have d: "d = map PyFloat (data v)"
    using new_Vector_Inr by blast
  have "\<exists>x. Vector_getitem v i = Inr x \<and> PyFloat x = d ! nat i"
    if "0 \<le> i" "i < Vector_len v"
    using that d by (simp add: Vector_getitem_def Vector_len_def)
  moreover have "Vector_getitem v i = Inl OutOfRange"
    if "Vector_len v \<le> i \<or> i < - Vector_len v"
    using that by (auto simp: Vector_getitem_def Vector_len_def OutOfRange_def)
  moreover have "Vector_getitem v (Vector_len v) = Inl OutOfRange"
    by (simp add: Vector_getitem_def Vector_len_def OutOfRange_def)
  ultimately show ?thesis by blast
qed

theorem indexing_witness:
  "(\<exists>x. Vector_getitem \<lparr>data = [Finite False 1, Finite False 2]\<rparr> 1 = Inr x \<and>
        PyFloat x = [PyFloat (Finite False 1), PyFloat (Finite False 2)] ! nat 1) \<and>
   Vector_getitem \<lparr>data = [Finite False 1, Finite False 2]\<rparr> 2 = Inl OutOfRange \<and>
   Vector_getitem \<lparr>data = [Finite False 1, Finite False 2]\<rparr> (- 3) = Inl OutOfRange"
proof -
  have c: "new_Vector [PyFloat (Finite False 1), PyFloat (Finite False 2)]
             = Inr \<lparr>data = [Finite False 1, Finite False 2]\<rparr>"
    by (simp add: new_Vector_def)
  show ?thesis
    using indexing [OF c, of 1] indexing [OF c, of 2] indexing [OF c, of "- 3"]
    by (simp add: Vector_len_def)
qed

section \<open>The validating decorator\<close>

text \<open>
  Claim C1. For Vectors \<open>a\<close> and \<open>b\<close> of different lengths, \<^verbatim>\<open>a + b\<close>, \<^verbatim>\<open>a - b\<close> and
  \<^verbatim>\<open>a @ b\<close> fail with \<open>LengthMismatch\<close>. For Vectors of equal length the decorator
  returns what the wrapped function returns on the same two operands, for any wrapped
  function and so for the three decorated methods.
\<close>

theorem validation:
  "(Vector_len a \<noteq> Vector_len b \<longrightarrow>
      Vector_add a (IsVector b) = Inl LengthMismatch \<and>
      Vector_sub a (IsVector b) = Inl LengthMismatch \<and>
      Vector_matmul a (IsVector b) = Inl LengthMismatch) \<and>
   (Vector_len a = Vector_len b \<longrightarrow>
      validate_vector f a (IsVector b) = f a b \<and>
      Vector_add a (IsVector b) = add_body a b \<and>
      Vector_sub a (IsVector b) = sub_body a b \<and>
      Vector_matmul a (IsVector b) = matmul_body a b)"
  by (simp add: Vector_add_def Vector_sub_def Vector_matmul_def validate_vector_def
      LengthMismatch_def)

theorem validation_witness:
  "Vector_add \<lparr>data = [Finite False 1, Finite False 2]\<rparr>
     (IsVector \<lparr>data = [Finite False 1, Finite False 2, Finite False 3]\<rparr>) = Inl LengthMismatch \<and>
   Vector_add \<lparr>data = [Finite False 1, Finite False 2]\<rparr>
     (IsVector \<lparr>data = [Finite False 3, Finite False 4]\<rparr>)
     = add_body \<lparr>data = [Finite False 1, Finite False 2]\<rparr> \<lparr>data = [Finite False 3, Finite False 4]\<rparr>"
  using validation [of "\<lparr>data = [Finite False 1, Finite False 2]\<rparr>"
                       "\<lparr>data = [Finite False 1, Finite False 2, Finite False 3]\<rparr>" add_body]
        validation [of "\<lparr>data = [Finite False 1, Finite False 2]\<rparr>"
                       "\<lparr>data = [Finite False 3, Finite False 4]\<rparr>" add_body]
  by (simp add: Vector_len_def)

section \<open>Division by zero\<close>

lemma map_result_total:
  "map_result (\<lambda>a. Inr (g a)) xs = Inr (map g xs)"
  by (induction xs) simp_all

lemma map_result_fails:
  "xs \<noteq> [] \<Longrightarrow> map_result (\<lambda>a. Inl e) xs = Inl e"
  by (cases xs) simp_all

lemma truediv_cases:
  assumes "data v \<noteq> []"
  shows "Vector_truediv v scalar =
     (if float_is_zero scalar then Inl ZeroDivisionError
      else Inr \<lparr>data = map (\<lambda>a. float_quotient a scalar) (data v)\<rparr>)"
  using assms
  by (simp add: Vector_truediv_def float_truediv_def map_result_total map_result_fails
      Vector_of_Cons)

lemma normalize_cases:
  assumes "data v \<noteq> []" and "Vector_abs v = Inr m"
  shows "Vector_normalize v =
     (if float_is_zero m then Inl ZeroDivisionError
      else Inr \<lparr>data = map (\<lambda>a. float_quotient a m) (data v)\<rparr>)"
  using assms
  by (simp add: Vector_normalize_def float_truediv_def map_result_total map_result_fails
      Vector_of_Cons)

lemma abs_of_zeros:
  "Vector_abs \<lparr>data = [Finite False 0, Finite True 0]\<rparr> = Inr (Finite False 0)"
  by (simp add: Vector_abs_def Vector_matmul_def validate_vector_def Vector_len_def
      matmul_body_def round64_def signed_def)

text \<open>
  Claim C3. For a constructed Vector \<open>v\<close>: when \<^verbatim>\<open>abs(v)\<close> returns a magnitude equal to
  zero, \<^verbatim>\<open>v.normalize()\<close> fails with \<open>DivisionByZero\<close>; when the scalar is equal to zero,
  \<^verbatim>\<open>v / scalar\<close> fails with \<open>DivisionByZero\<close>. Both failures are the \<open>ZeroDivisionError\<close>
  of Python's float division on the first element.
\<close>

theorem zero_division_fails:
  "(new_Vector d = Inr v \<and> Vector_abs v = Inr m \<and> float_is_zero m \<longrightarrow>
      Vector_normalize v = Inl DivisionByZero) \<and>
   (new_Vector d = Inr v \<and> float_is_zero scalar \<longrightarrow>
      Vector_truediv v scalar = Inl DivisionByZero)"
proof -
  have ne: "data v \<noteq> []" if "new_Vector d = Inr v"
    using new_Vector_Inr [OF that] by auto
  show ?thesis
    using ne by (auto simp: truediv_cases normalize_cases DivisionByZero_def)
qed

theorem zero_division_fails_witness:
  "Vector_normalize \<lparr>data = [Finite False 0, Finite True 0]\<rparr> = Inl DivisionByZero \<and>
   Vector_truediv \<lparr>data = [Finite False 1, Finite False 2]\<rparr> (Finite True 0) = Inl DivisionByZero"
proof -
  have a: "new_Vector [PyFloat (Finite False 0), PyFloat (Finite True 0)]
             = Inr \<lparr>data = [Finite False 0, Finite True 0]\<rparr>"
    by (simp add: new_Vector_def)
  have c: "new_Vector [PyFloat (Finite False 1), PyFloat (Finite False 2)]
             = Inr \<lparr>data = [Finite False 1, Finite False 2]\<rparr>"
    by (simp add: new_Vector_def)
  show ?thesis
    using zero_division_fails [of "[PyFloat (Finite False 0), PyFloat (Finite True 0)]"
            "\<lparr>data = [Finite False 0, Finite True 0]\<rparr>" "Finite False 0"]
          zero_division_fails [of "[PyFloat (Finite False 1), PyFloat (Finite False 2)]"
            "\<lparr>data = [Finite False 1, Finite False 2]\<rparr>" _ "Finite True 0"]
          a abs_of_zeros c
    by simp
qed

text \<open>
  Claim C4 says that the source produces infinities or NaN silently instead of raising.
  Dividing the Vector \<open>[1.0]\<close> by \<open>0.0\<close> and normalizing the Vector \<open>[0.0]\<close> (whose
  magnitude is \<open>0.0\<close>) both raise \<open>ZeroDivisionError\<close>; no Vector is returned.
\<close>

theorem silent_division_counterexample:
  "new_Vector [PyFloat (Finite False 1)] = Inr \<lparr>data = [Finite False 1]\<rparr> \<and>
   Vector_truediv \<lparr>data = [Finite False 1]\<rparr> (Finite False 0) = Inl ZeroDivisionError \<and>
   new_Vector [PyFloat (Finite False 0)] = Inr \<lparr>data = [Finite False 0]\<rparr> \<and>
   Vector_abs \<lparr>data = [Finite False 0]\<rparr> = Inr (Finite False 0) \<and>
   Vector_normalize \<lparr>data = [Finite False 0]\<rparr> = Inl ZeroDivisionError"
  by (simp add: new_Vector_def Vector_truediv_def float_truediv_def Vector_normalize_def
      Vector_abs_def Vector_matmul_def validate_vector_def Vector_len_def matmul_body_def
      round64_def signed_def)

text \<open>
  Claim C4, amended. The source has no zero check of its own and divides every element
  unconditionally: \<^verbatim>\<open>v / scalar\<close> is the Vector of the element-wise quotients when the
  scalar is not zero and raises \<open>ZeroDivisionError\<close> (from the float division itself)
  when it is; \<^verbatim>\<open>v.normalize()\<close> behaves in the same way with the magnitude of \<open>v\<close> as
  the divisor. No infinity or NaN is produced from a zero divisor.
\<close>

theorem division_unguarded:
  "new_Vector d = Inr v \<Longrightarrow>
   Vector_truediv v scalar =
     (if float_is_zero scalar then Inl ZeroDivisionError
      else Inr \<lparr>data = map (\<lambda>a. float_quotient a scalar) (data v)\<rparr>) \<and>
   (Vector_abs v = Inr m \<longrightarrow>
      Vector_normalize v =
        (if float_is_zero m then Inl ZeroDivisionError
         else Inr \<lparr>data = map (\<lambda>a. float_quotient a m) (data v)\<rparr>))"
proof -
  assume "new_Vector d = Inr v"
  then have "data v \<noteq> []"
    using new_Vector_Inr by auto
  then show ?thesis
    using truediv_cases normalize_cases by blast
qed

theorem division_unguarded_witness:
  "Vector_truediv \<lparr>data = [Finite False 0, Finite True 0]\<rparr> (Infinity False)
     = Inr \<lparr>data = [Finite False 0, Finite True 0]\<rparr> \<and>
   Vector_truediv \<lparr>data = [Finite False 0, Finite True 0]\<rparr> (Finite False 0)
     = Inl ZeroDivisionError \<and>
   Vector_normalize \<lparr>data = [Finite False 0, Finite True 0]\<rparr> = Inl ZeroDivisionError"
proof -
  have a: "new_Vector [PyFloat (Finite False 0), PyFloat (Finite True 0)]
             = Inr \<lparr>data = [Finite False 0, Finite True 0]\<rparr>"
    by (simp add: new_Vector_def)
  show ?thesis
    using division_unguarded [OF a, of "Infinity False" "Finite False 0"]
          division_unguarded [OF a, of "Finite False 0" "Finite False 0"]
          abs_of_zeros
    by simp
qed

section \<open>Rounding of powers of two\<close>




lemma bit_length_pow2: "bit_length (2 ^ n) = Suc n"
proof (induction n)
  case 0
  show ?case by (simp add: bit_length.simps [of 1] bit_length.simps [of 0])
next
  case (Suc n)
  have "bit_length (2 ^ Suc n) = Suc (bit_length (2 ^ n))"
    by (subst bit_length.simps) simp
  with Suc show ?case by simp
qed




lemma pow2_powi: "pow2 e = 2 powi e"
  by (simp add: pow2_def power_int_def field_simps)

lemma quotient_of_pow2: "quotient_of (2 ^ n) = (2 ^ n, 1)"
proof -
  have "(2::rat) ^ n = Fract (2 ^ n) 1"
    by (simp add: Fract_of_int_eq)
  then show ?thesis
    by (simp add: quotient_of_Fract Rat.normalize_def)
qed

lemma ilog2_pow2: "ilog2 (2 ^ n) = int n"
proof -
  have "bit_length 1 = Suc 0"
    using bit_length_pow2 [of 0] by simp
  moreover have "pow2 (int n) \<le> 2 ^ n"
    by (simp add: pow2_def)
  ultimately show ?thesis
    by (simp add: ilog2_def quotient_of_pow2 bit_length_pow2 Let_def)
qed

lemma round64_pow2:
  "round64 s (2 ^ n) = (if n < 1024 then Finite s (2 ^ n) else Infinity s)"
proof -
  define q :: rat where "q = 2 ^ n"
  define u :: int where "u = int n - 52"
  define M :: int where "M = 2 ^ 52"
  have q0: "q \<noteq> 0"
    by (simp add: q_def)
  have u: "max (ilog2 q - 52) (- 1074) = u"
    by (simp add: q_def u_def ilog2_pow2)
  have "pow2 u = 2 powi int n / 2 powi 52"
    unfolding pow2_powi u_def by (rule power_int_diff) simp
  then have p: "pow2 u = q / of_int M"
    by (simp add: q_def M_def)
  have M0: "(of_int M :: rat) \<noteq> 0"
    by (simp add: M_def)
  have t: "q / pow2 u = of_int M"
    unfolding p using q0 M0 by simp
  have scaled: "of_int M * pow2 u = q"
    unfolding p using M0 by simp
  have over: "pow2 1024 \<le> q \<longleftrightarrow> 1024 \<le> n"
  proof -
    have "pow2 1024 = 2 ^ 1024"
      by (simp only: pow2_def) simp
    then show ?thesis
      unfolding q_def by (simp only: power_increasing_iff)
  qed
  have "round64 s q = (if n < 1024 then Finite s q else Infinity s)"
    unfolding round64_def u Let_def t
    using q0 over by (simp add: scaled not_le)
  then show ?thesis
    by (simp add: q_def)
qed

section \<open>Commutativity\<close>

lemma float_mul_commute: "float_mul x y = float_mul y x"
proof (cases x)
  case x: (Finite s1 q1)
  show ?thesis
  proof (cases y)
    case (Finite s2 q2)
    with x show ?thesis by (cases s1; cases s2) (simp_all add: mult.commute)
  next
    case (Infinity s2)
    with x show ?thesis by (cases s1; cases s2) simp_all
  next
    case NaN
    with x show ?thesis by simp
  qed
next
  case x: (Infinity s1)
  show ?thesis
  proof (cases y)
    case (Finite s2 q2)
    with x show ?thesis by (cases s1; cases s2) simp_all
  next
    case (Infinity s2)
    with x show ?thesis by (cases s1; cases s2) simp_all
  next
    case NaN
    with x show ?thesis by simp
  qed
next
  case NaN
  then show ?thesis by (cases y) simp_all
qed


lemma products_commute:
  "map (\<lambda>(a, b). float_mul a b) (zip xs ys) = map (\<lambda>(a, b). float_mul a b) (zip ys xs)"
proof (induction xs arbitrary: ys)
  case Nil
  then show ?case by simp
next
  case (Cons x xs)
  then show ?case by (cases ys) (simp_all add: float_mul_commute)
qed

lemma float_eq_self: "float_eq x x \<longleftrightarrow> x \<noteq> NaN"
  by (cases x) simp_all

lemma py_sum_float: "xs \<noteq> [] \<Longrightarrow> \<exists>z. py_sum xs = PyFloat z"
  by (cases xs) simp_all

lemma products_nonempty:
  "xs \<noteq> [] \<Longrightarrow> length xs = length ys \<Longrightarrow> map (\<lambda>(a, b). float_mul a b) (zip xs ys) \<noteq> []"
  by (cases xs; cases ys) simp_all

text \<open>
  Claim C7 says that \<^verbatim>\<open>a @ b == b @ a\<close> for all Vectors of equal length. For
  \<open>a = [2 ^ 600, 2 ^ 600]\<close> and \<open>b = [2 ^ 600, - 2 ^ 600]\<close>, whose elements are binary64
  numbers, the two products overflow to \<open>inf\<close> and \<open>-inf\<close>, their sum is NaN, so both dot
  products are NaN, and \<^verbatim>\<open>NaN == NaN\<close> is \<open>False\<close>.
\<close>

theorem commutativity_counterexample:
  "new_Vector [PyFloat (Finite False (2 ^ 600)), PyFloat (Finite False (2 ^ 600))]
     = Inr \<lparr>data = [Finite False (2 ^ 600), Finite False (2 ^ 600)]\<rparr> \<and>
   new_Vector [PyFloat (Finite False (2 ^ 600)), PyFloat (Finite True (2 ^ 600))]
     = Inr \<lparr>data = [Finite False (2 ^ 600), Finite True (2 ^ 600)]\<rparr> \<and>
   is_double (Finite False (2 ^ 600)) \<and> is_double (Finite True (2 ^ 600)) \<and>
   Vector_matmul \<lparr>data = [Finite False (2 ^ 600), Finite False (2 ^ 600)]\<rparr>
     (IsVector \<lparr>data = [Finite False (2 ^ 600), Finite True (2 ^ 600)]\<rparr>) = Inr (PyFloat NaN) \<and>
   Vector_matmul \<lparr>data = [Finite False (2 ^ 600), Finite True (2 ^ 600)]\<rparr>
     (IsVector \<lparr>data = [Finite False (2 ^ 600), Finite False (2 ^ 600)]\<rparr>) = Inr (PyFloat NaN) \<and>
   \<not> float_eq NaN NaN"
proof -
  define t :: rat where "t = 2 ^ 600"
  have d: "round64 s t = Finite s t" for s
    unfolding t_def by (subst round64_pow2) simp
  have pos: "0 \<le> t"
    by (simp add: t_def)
  have over: "round64 s (t * t) = Infinity s" for s
  proof -
    have "round64 s (2 ^ (600 + 600)) = Infinity s"
      by (subst round64_pow2) simp
    then show ?thesis
      unfolding t_def power_add .
  qed
  have
    "new_Vector [PyFloat (Finite False t), PyFloat (Finite False t)]
       = Inr \<lparr>data = [Finite False t, Finite False t]\<rparr> \<and>
     new_Vector [PyFloat (Finite False t), PyFloat (Finite True t)]
       = Inr \<lparr>data = [Finite False t, Finite True t]\<rparr> \<and>
     is_double (Finite False t) \<and> is_double (Finite True t) \<and>
     Vector_matmul \<lparr>data = [Finite False t, Finite False t]\<rparr>
       (IsVector \<lparr>data = [Finite False t, Finite True t]\<rparr>) = Inr (PyFloat NaN) \<and>
     Vector_matmul \<lparr>data = [Finite False t, Finite True t]\<rparr>
       (IsVector \<lparr>data = [Finite False t, Finite False t]\<rparr>) = Inr (PyFloat NaN) \<and>
     \<not> float_eq NaN NaN"
    using pos
    by (simp add: new_Vector_def d Vector_matmul_def validate_vector_def Vector_len_def
        matmul_body_def over)
  then show ?thesis
    unfolding t_def .
qed

text \<open>
  Claim C7, amended. For Vectors \<open>a\<close> and \<open>b\<close> of equal length, \<^verbatim>\<open>a @ b\<close> and \<^verbatim>\<open>b @ a\<close> return
  floats that are either both NaN (then \<^verbatim>\<open>==\<close> between them is \<open>False\<close>) or the same float
  (then \<^verbatim>\<open>==\<close> is \<open>True\<close>); with different lengths both raise the \<open>ValueError\<close> of the length
  check. \<^verbatim>\<open>k * v\<close> (\<^verbatim>\<open>__rmul__\<close>) and \<^verbatim>\<open>v * k\<close> (\<^verbatim>\<open>__mul__\<close>) return a Vector with the same
  elements \<^verbatim>\<open>[a * k for a in v]\<close>; compared element by element with \<^verbatim>\<open>==\<close>, the two results
  are equal exactly when none of these products is NaN.
\<close>

theorem commutativity:
  assumes "new_Vector da = Inr a" and "new_Vector db = Inr b" and "new_Vector dv = Inr v"
  shows "(Vector_len a = Vector_len b \<longrightarrow>
       (\<exists>x y. Vector_matmul a (IsVector b) = Inr (PyFloat x) \<and>
              Vector_matmul b (IsVector a) = Inr (PyFloat y) \<and>
              (if x = NaN then y = NaN \<and> \<not> float_eq x y else y = x \<and> float_eq x y))) \<and>
     (Vector_len a \<noteq> Vector_len b \<longrightarrow>
        Vector_matmul a (IsVector b) = Inl LengthMismatch \<and>
        Vector_matmul b (IsVector a) = Inl LengthMismatch) \<and>
     (\<exists>r. Vector_mul v k = Inr r \<and> Vector_rmul v k = Inr r \<and>
          data r = map (\<lambda>a. float_mul a k) (data v) \<and>
          (list_all2 float_eq (data r) (data r) \<longleftrightarrow> NaN \<notin> set (data r)))"
proof -
  have ne: "data a \<noteq> []" "data v \<noteq> []"
    using new_Vector_Inr [OF assms(1)] new_Vector_Inr [OF assms(3)] by auto
  have c1: "\<exists>x y. Vector_matmul a (IsVector b) = Inr (PyFloat x) \<and>
              Vector_matmul b (IsVector a) = Inr (PyFloat y) \<and>
              (if x = NaN then y = NaN \<and> \<not> float_eq x y else y = x \<and> float_eq x y)"
    if len: "Vector_len a = Vector_len b"
  proof -
    from len have "length (data a) = length (data b)"
      by (simp add: Vector_len_def)
    then obtain z where
      z: "py_sum (map (\<lambda>(a, b). float_mul a b) (zip (data a) (data b))) = PyFloat z"
      using py_sum_float [OF products_nonempty [OF ne(1)]] by blast
    have ab: "Vector_matmul a (IsVector b) = Inr (PyFloat z)"
      using len z by (simp add: Vector_matmul_def validate_vector_def matmul_body_def)
    have ba: "Vector_matmul b (IsVector a) = Inr (PyFloat z)"
      using len z
      by (simp add: Vector_matmul_def validate_vector_def matmul_body_def
          products_commute [of "data b"])
    have "if z = NaN then z = NaN \<and> \<not> float_eq z z else z = z \<and> float_eq z z"
      by (simp add: float_eq_self)
    with ab ba show ?thesis
      by blast
  qed
  have c2: "Vector_matmul a (IsVector b) = Inl LengthMismatch \<and>
        Vector_matmul b (IsVector a) = Inl LengthMismatch"
    if "Vector_len a \<noteq> Vector_len b"
    using that by (simp add: Vector_matmul_def validate_vector_def LengthMismatch_def)
  have nonempty: "map (\<lambda>a. float_mul a k) (data v) \<noteq> []"
    using ne(2) by simp
  have mul: "Vector_mul v k = Inr \<lparr>data = map (\<lambda>a. float_mul a k) (data v)\<rparr>"
    unfolding Vector_mul_def by (rule Vector_of_Cons [OF nonempty])
  have same: "list_all2 float_eq xs xs \<longleftrightarrow> NaN \<notin> set xs" for xs
    by (induction xs) (auto simp: float_eq_self)
  have c3: "\<exists>r. Vector_mul v k = Inr r \<and> Vector_rmul v k = Inr r \<and>
          data r = map (\<lambda>a. float_mul a k) (data v) \<and>
          (list_all2 float_eq (data r) (data r) \<longleftrightarrow> NaN \<notin> set (data r))"
    using mul same by (simp add: Vector_rmul_def)
  from c1 c2 c3 show ?thesis
    by blast
qed

theorem commutativity_witness:
  "Vector_matmul \<lparr>data = [Finite False 0, Finite True 0]\<rparr>
     (IsVector \<lparr>data = [Finite True 0, Finite False 0]\<rparr>) =
   Vector_matmul \<lparr>data = [Finite True 0, Finite False 0]\<rparr>
     (IsVector \<lparr>data = [Finite False 0, Finite True 0]\<rparr>) \<and>
   Vector_matmul \<lparr>data = [Finite False 0]\<rparr>
     (IsVector \<lparr>data = [Finite True 0, Finite False 0]\<rparr>) = Inl LengthMismatch \<and>
   Vector_rmul \<lparr>data = [Finite False 0]\<rparr> (Infinity False) = Inr \<lparr>data = [NaN]\<rparr>"
proof -
  define a where "a = \<lparr>data = [Finite False 0, Finite True 0]\<rparr>"
  define b where "b = \<lparr>data = [Finite True 0, Finite False 0]\<rparr>"
  define v where "v = \<lparr>data = [Finite False 0]\<rparr>"
  have na: "new_Vector [PyFloat (Finite False 0), PyFloat (Finite True 0)] = Inr a"
    by (simp add: new_Vector_def a_def)
  have nb: "new_Vector [PyFloat (Finite True 0), PyFloat (Finite False 0)] = Inr b"
    by (simp add: new_Vector_def b_def)
  have nv: "new_Vector [PyFloat (Finite False 0)] = Inr v"
    by (simp add: new_Vector_def v_def)
  have len: "Vector_len a = Vector_len b" "Vector_len v \<noteq> Vector_len b"
    by (simp_all add: Vector_len_def a_def b_def v_def)
  have ab: "Vector_matmul a (IsVector b) = Inr (PyFloat (Finite False 0))"
    by (simp add: Vector_matmul_def validate_vector_def matmul_body_def Vector_len_def
        a_def b_def round64_def signed_def)
  have dv: "map (\<lambda>a. float_mul a (Infinity False)) (data v) = [NaN]"
    by (simp add: v_def)
  have "Vector_matmul a (IsVector b) = Vector_matmul b (IsVector a) \<and>
    Vector_matmul v (IsVector b) = Inl LengthMismatch \<and>
    Vector_rmul v (Infinity False) = Inr \<lparr>data = [NaN]\<rparr>"
    using commutativity [OF na nb nv, of "Infinity False"]
          commutativity [OF nv nb nv, of "Infinity False"] len ab dv
    by (auto simp: float_eq_self split: if_splits)
  then show ?thesis
    unfolding a_def b_def v_def .
qed

section \<open>Distance\<close>







































section \<open>No mutation\<close>

lemma extends_refl: "extends h h"
  by (simp add: extends_def)

lemma take_prefix_length: "take (length xs) ys = xs \<Longrightarrow> length xs \<le> length ys"
proof -
  assume "take (length xs) ys = xs"
  then have "length (take (length xs) ys) = length xs"
    by simp
  then show ?thesis
    by simp
qed

lemma take_prefix_nth:
  assumes "take (length xs) ys = xs" and "i < length xs"
  shows "i < length ys \<and> ys ! i = xs ! i"
proof -
  have "length xs \<le> length ys"
    using assms(1) by (rule take_prefix_length)
  moreover have "take (length xs) ys ! i = ys ! i"
    using assms(2) by simp
  ultimately show ?thesis
    using assms by simp
qed

lemma extends_list_at:
  "extends h h' \<Longrightarrow> list_at h l = Some d \<Longrightarrow> list_at h' l = Some d"
  using take_prefix_nth [of "lists h" "lists h'" l]
  by (auto simp: extends_def list_at_def split: if_splits)

lemma extends_self_data:
  assumes "extends h h'" and "self_data h v = Some xs"
  shows "self_data h' v = Some xs"
proof -
  from assms(2) have v: "v < length (vectors h)"
    and r: "Option.bind (list_at h (vectors h ! v)) floats_of = Some xs"
    by (auto simp: self_data_def split: if_splits)
  from r obtain d where d: "list_at h (vectors h ! v) = Some d" "floats_of d = Some xs"
    by (auto simp: bind_eq_Some_conv)
  have v': "v < length (vectors h') \<and> vectors h' ! v = vectors h ! v"
    using take_prefix_nth [of "vectors h" "vectors h'" v] assms(1) v
    by (simp add: extends_def)
  have "list_at h' (vectors h ! v) = Some d"
    using extends_list_at [OF assms(1) d(1)] .
  with v' d(2) show ?thesis
    by (simp add: self_data_def)
qed

lemma floats_of_floats: "floats_of (map PyFloat xs) = Some xs"
  by (induction xs) simp_all

lemma heap_Vector_of_closed:
  "heap_Vector_of h xs =
     Some (case Vector_of xs of Inl e \<Rightarrow> Inl e | Inr x \<Rightarrow> Inr (length (vectors h)),
           h\<lparr>lists := lists h @ [map PyFloat xs], vectors := vectors h @ [length (lists h)]\<rparr>)"
  by (simp add: heap_Vector_of_def alloc_list_def heap_Vector_def list_at_def alloc_vector_def
      Vector_of_def)

lemma heap_Vector_of_outcome: "new_vector_outcome h (heap_Vector_of h xs)"
proof (cases "Vector_of xs")
  case (Inl e)
  then show ?thesis
    by (simp add: heap_Vector_of_closed extends_def)
next
  case (Inr x)
  then show ?thesis
    by (simp add: heap_Vector_of_closed extends_def self_data_def list_at_def floats_of_floats)
qed

lemma heap_Vector_of_result_outcome: "new_vector_outcome h (heap_Vector_of_result h r)"
  by (cases r) (simp_all add: heap_Vector_of_result_def heap_Vector_of_outcome extends_refl)

lemma heap_len_Some: "self_data h v = Some xs \<Longrightarrow> heap_len h v = Some (int (length xs))"
  by (simp add: heap_len_def Vector_len_def)

lemma heap_validate_outcome:
  assumes "self_data h v = Some xs" and "operand_ok h w"
    and "\<And>u ys. self_data h u = Some ys \<Longrightarrow> new_vector_outcome h (f h v u)"
  shows "new_vector_outcome h (heap_validate_vector f h v w)"
proof (cases w)
  case (Other x)
  then show ?thesis
    by (simp add: heap_validate_vector_def extends_refl)
next
  case (RefVector u)
  with assms(2) obtain ys where ys: "self_data h u = Some ys"
    by auto
  show ?thesis
    using assms(3) [OF ys]
    by (simp add: RefVector heap_validate_vector_def heap_len_Some [OF assms(1)]
        heap_len_Some [OF ys] extends_refl)
qed

lemma heap_neg_outcome: "self_data h v = Some xs \<Longrightarrow> new_vector_outcome h (heap_neg h v)"
  by (simp add: heap_neg_def heap_Vector_of_outcome)

lemma heap_add_outcome:
  "self_data h v = Some xs \<Longrightarrow> operand_ok h w \<Longrightarrow> new_vector_outcome h (heap_add h v w)"
  unfolding heap_add_def
  by (rule heap_validate_outcome) (simp_all add: heap_add_body_def heap_Vector_of_outcome)

lemma heap_sub_outcome:
  "self_data h v = Some xs \<Longrightarrow> operand_ok h w \<Longrightarrow> new_vector_outcome h (heap_sub h v w)"
  unfolding heap_sub_def
  by (rule heap_validate_outcome) (simp_all add: heap_sub_body_def heap_Vector_of_outcome)

lemma heap_mul_outcome: "self_data h v = Some xs \<Longrightarrow> new_vector_outcome h (heap_mul h v k)"
  by (simp add: heap_mul_def heap_Vector_of_outcome)

lemma heap_truediv_outcome:
  "self_data h v = Some xs \<Longrightarrow> new_vector_outcome h (heap_truediv h v k)"
  by (simp add: heap_truediv_def heap_Vector_of_result_outcome)

lemma heap_matmul_reads:
  assumes "self_data h v = Some xs" and "operand_ok h w"
  shows "\<exists>r. heap_matmul h v w = Some (r, h)"
proof (cases w)
  case (Other x)
  then show ?thesis
    by (simp add: heap_matmul_def heap_validate_vector_def)
next
  case (RefVector u)
  with assms(2) obtain ys where ys: "self_data h u = Some ys"
    by auto
  show ?thesis
    by (simp add: RefVector heap_matmul_def heap_validate_vector_def heap_len_Some [OF assms(1)]
        heap_len_Some [OF ys] heap_matmul_body_def assms(1) ys)
qed

lemma heap_abs_reads:
  assumes "self_data h v = Some xs"
  shows "\<exists>r. heap_abs h v = Some (r, h)"
proof -
  have "operand_ok h (RefVector v)"
    using assms by simp
  from heap_matmul_reads [OF assms this] obtain r
    where "heap_matmul h v (RefVector v) = Some (r, h)"
    by blast
  then show ?thesis
    by (simp add: heap_abs_def)
qed

lemma heap_quotients_reads:
  assumes "self_data h v = Some xs"
  shows "\<exists>r. heap_quotients h v as = Some (r, h)"
proof (induction as)
  case Nil
  show ?case by simp
next
  case (Cons a as)
  from heap_abs_reads [OF assms] obtain m where m: "heap_abs h v = Some (m, h)"
    by blast
  from Cons obtain r where r: "heap_quotients h v as = Some (r, h)"
    by blast
  show ?case
    by (simp add: m r split: sum.splits)
qed

lemma heap_normalize_outcome:
  assumes "self_data h v = Some xs"
  shows "new_vector_outcome h (heap_normalize h v)"
proof -
  from heap_quotients_reads [OF assms] obtain r where "heap_quotients h v xs = Some (r, h)"
    by blast
  then show ?thesis
    by (simp add: heap_normalize_def assms heap_Vector_of_result_outcome)
qed

lemma heap_distance_extends:
  assumes "self_data h v = Some xs" and "operand_ok h w"
  shows "\<exists>r h'. heap_distance h v w = Some (r, h') \<and> extends h h'"
proof -
  have out: "new_vector_outcome h (heap_sub h v w)"
    using assms by (rule heap_sub_outcome)
  then obtain r h1 where s: "heap_sub h v w = Some (r, h1)"
    by (cases "heap_sub h v w") auto
  show ?thesis
  proof (cases r)
    case (Inl e)
    with out s show ?thesis
      by (simp add: heap_distance_def)
  next
    case (Inr d)
    with out s have ext: "extends h h1" and "self_data h1 d \<noteq> None"
      by simp_all
    then obtain ds where "self_data h1 d = Some ds"
      by auto
    from heap_abs_reads [OF this] obtain m where "heap_abs h1 d = Some (m, h1)"
      by blast
    with s Inr ext show ?thesis
      by (simp add: heap_distance_def)
  qed
qed

lemma Vector_of_Inr: "Vector_of xs = Inr x \<Longrightarrow> x = \<lparr>data = xs\<rparr>"
proof -
  assume a: "Vector_of xs = Inr x"
  then have "xs \<noteq> []"
    by (auto simp: Vector_of_Nil)
  from Vector_of_Cons [OF this] a show ?thesis
    by simp
qed

lemma heap_Vector_of_refines:
  assumes "heap_Vector_of h xs = Some (r, h')"
  shows "vector_result h' r = Some (Vector_of xs)"
proof (cases "Vector_of xs")
  case (Inl e)
  with assms show ?thesis
    by (auto simp: heap_Vector_of_closed)
next
  case (Inr x)
  with assms Vector_of_Inr [OF Inr] show ?thesis
    by (auto simp: heap_Vector_of_closed self_data_def list_at_def floats_of_floats)
qed

lemma heap_Vector_of_result_refines:
  assumes "heap_Vector_of_result h r0 = Some (r, h')"
  shows "vector_result h' r = Some (bind_result r0 Vector_of)"
  using assms
  by (cases r0) (auto simp: heap_Vector_of_result_def heap_Vector_of_refines)

lemma heap_Vector_refines:
  assumes "list_at h l = Some d" and "heap_Vector h l = Some (r, h')"
  shows "vector_result h' r = Some (new_Vector d)"
proof (cases "new_Vector d")
  case (Inl e)
  with assms show ?thesis
    by (auto simp: heap_Vector_def alloc_vector_def)
next
  case (Inr x)
  then have "d = map PyFloat (data x)"
    using new_Vector_Inr by blast
  then have "floats_of d = Some (data x)"
    by (simp add: floats_of_floats)
  with assms Inr show ?thesis
    by (auto simp: heap_Vector_def alloc_vector_def self_data_def list_at_def split: if_splits)
qed

lemma heap_neg_refines:
  assumes "self_data h v = Some xs" and "heap_neg h v = Some (r, h')"
  shows "vector_result h' r = Some (Vector_neg \<lparr>data = xs\<rparr>)"
  using assms by (simp add: heap_neg_def Vector_neg_def heap_Vector_of_refines)

lemma heap_mul_refines:
  assumes "self_data h v = Some xs" and "heap_mul h v k = Some (r, h')"
  shows "vector_result h' r = Some (Vector_mul \<lparr>data = xs\<rparr> k)"
  using assms by (simp add: heap_mul_def Vector_mul_def heap_Vector_of_refines)

lemma heap_rmul_refines:
  assumes "self_data h v = Some xs" and "heap_rmul h v k = Some (r, h')"
  shows "vector_result h' r = Some (Vector_rmul \<lparr>data = xs\<rparr> k)"
  using assms by (simp add: heap_rmul_def Vector_rmul_def heap_mul_refines)

lemma heap_truediv_refines:
  assumes "self_data h v = Some xs" and "heap_truediv h v k = Some (r, h')"
  shows "vector_result h' r = Some (Vector_truediv \<lparr>data = xs\<rparr> k)"
  using assms by (simp add: heap_truediv_def Vector_truediv_def heap_Vector_of_result_refines)

lemma heap_add_refines:
  assumes "self_data h v = Some xs" and "operand_value h w = Some other"
    and "heap_add h v w = Some (r, h')"
  shows "vector_result h' r = Some (Vector_add \<lparr>data = xs\<rparr> other)"
proof (cases w)
  case (Other x)
  with assms show ?thesis
    by (auto simp: heap_add_def heap_validate_vector_def Vector_add_def validate_vector_def)
next
  case (RefVector u)
  with assms(2) obtain ys where ys: "self_data h u = Some ys" "other = IsVector \<lparr>data = ys\<rparr>"
    by auto
  show ?thesis
    using assms(3)
    by (auto simp: RefVector ys heap_add_def heap_validate_vector_def Vector_add_def
        validate_vector_def heap_len_Some [OF assms(1)] heap_len_Some [OF ys(1)] Vector_len_def
        heap_add_body_def add_body_def assms(1) heap_Vector_of_refines split: if_splits)
qed

lemma heap_sub_refines:
  assumes "self_data h v = Some xs" and "operand_value h w = Some other"
    and "heap_sub h v w = Some (r, h')"
  shows "vector_result h' r = Some (Vector_sub \<lparr>data = xs\<rparr> other)"
proof (cases w)
  case (Other x)
  with assms show ?thesis
    by (auto simp: heap_sub_def heap_validate_vector_def Vector_sub_def validate_vector_def)
next
  case (RefVector u)
  with assms(2) obtain ys where ys: "self_data h u = Some ys" "other = IsVector \<lparr>data = ys\<rparr>"
    by auto
  show ?thesis
    using assms(3)
    by (auto simp: RefVector ys heap_sub_def heap_validate_vector_def Vector_sub_def
        validate_vector_def heap_len_Some [OF assms(1)] heap_len_Some [OF ys(1)] Vector_len_def
        heap_sub_body_def sub_body_def assms(1) heap_Vector_of_refines split: if_splits)
qed

lemma heap_matmul_refines:
  assumes "self_data h v = Some xs" and "operand_value h w = Some other"
  shows "heap_matmul h v w = Some (Vector_matmul \<lparr>data = xs\<rparr> other, h)"
proof (cases w)
  case (Other x)
  with assms show ?thesis
    by (auto simp: heap_matmul_def heap_validate_vector_def Vector_matmul_def validate_vector_def)
next
  case (RefVector u)
  with assms(2) obtain ys where ys: "self_data h u = Some ys" "other = IsVector \<lparr>data = ys\<rparr>"
    by auto
  show ?thesis
    by (simp add: RefVector ys heap_matmul_def heap_validate_vector_def Vector_matmul_def
        validate_vector_def heap_len_Some [OF assms(1)] heap_len_Some [OF ys(1)] Vector_len_def
        heap_matmul_body_def matmul_body_def assms(1))
qed

lemma heap_abs_refines:
  assumes "self_data h v = Some xs"
  shows "heap_abs h v = Some (Vector_abs \<lparr>data = xs\<rparr>, h)"
proof -
  have "operand_value h (RefVector v) = Some (IsVector \<lparr>data = xs\<rparr>)"
    using assms by simp
  from heap_matmul_refines [OF assms this] show ?thesis
    by (simp add: heap_abs_def Vector_abs_def)
qed

lemma heap_quotients_refines:
  assumes "self_data h v = Some xs"
  shows "heap_quotients h v as =
     Some (map_result (\<lambda>a. bind_result (Vector_abs \<lparr>data = xs\<rparr>) (\<lambda>m. float_truediv a m)) as, h)"
proof (induction as)
  case Nil
  show ?case by simp
next
  case (Cons a as)
  then show ?case
    by (simp add: heap_abs_refines [OF assms] split: sum.splits)
qed

lemma heap_normalize_refines:
  assumes "self_data h v = Some xs" and "heap_normalize h v = Some (r, h')"
  shows "vector_result h' r = Some (Vector_normalize \<lparr>data = xs\<rparr>)"
  using assms
  by (simp add: heap_normalize_def Vector_normalize_def heap_quotients_refines [OF assms(1)]
      heap_Vector_of_result_refines)

lemma heap_distance_refines:
  assumes "self_data h v = Some xs" and "operand_value h w = Some other"
    and "heap_distance h v w = Some (r, h')"
  shows "r = Vector_distance \<lparr>data = xs\<rparr> other"
proof (cases "heap_sub h v w")
  case None
  with assms(3) show ?thesis
    by (simp add: heap_distance_def)
next
  case (Some p)
  obtain d h1 where p: "p = (d, h1)"
    by (cases p)
  from heap_sub_refines [OF assms(1,2)] Some p
  have sub: "vector_result h1 d = Some (Vector_sub \<lparr>data = xs\<rparr> other)"
    by simp
  show ?thesis
  proof (cases d)
    case (Inl e)
    with sub have "Vector_sub \<lparr>data = xs\<rparr> other = Inl e"
      by simp
    with assms(3) Some p Inl show ?thesis
      by (simp add: heap_distance_def Vector_distance_def)
  next
    case (Inr a)
    with sub obtain ds where ds: "self_data h1 a = Some ds"
      "Vector_sub \<lparr>data = xs\<rparr> other = Inr \<lparr>data = ds\<rparr>"
      by auto
    with assms(3) Some p Inr show ?thesis
      by (simp add: heap_distance_def Vector_distance_def heap_abs_refines [OF ds(1)])
  qed
qed


lemma heap_Vector_outcome:
  assumes "l < length (lists h)"
  shows "\<exists>r h'. heap_Vector h l = Some (r, h') \<and> extends h h' \<and>
     (\<forall>a. r = Inr a \<longrightarrow> length (vectors h) \<le> a \<and> a < length (vectors h') \<and>
        vectors h' ! a = l \<and> self_data h' a \<noteq> None)"
proof (cases "new_Vector (lists h ! l)")
  case (Inl e)
  with assms show ?thesis
    by (simp add: heap_Vector_def list_at_def alloc_vector_def extends_def)
next
  case (Inr x)
  then have "lists h ! l = map PyFloat (data x)"
    using new_Vector_Inr by blast
  then have "floats_of (lists h ! l) = Some (data x)"
    by (simp add: floats_of_floats)
  with assms Inr show ?thesis
    by (simp add: heap_Vector_def list_at_def alloc_vector_def extends_def self_data_def)
qed

lemma returns_vector_outcome:
  assumes "new_vector_outcome h res"
  shows "\<exists>r h'. returns_vector res = Some (r, h') \<and> extends h h' \<and>
     (\<forall>a. r = Inr (RVector a) \<longrightarrow> length (vectors h) \<le> a \<and> a < length (vectors h') \<and>
        self_data h' a \<noteq> None \<and> length (lists h) \<le> vectors h' ! a)"
proof -
  from assms obtain r h' where res: "res = Some (r, h')"
    by (cases res) auto
  with assms show ?thesis
    by (cases r) (simp_all add: returns_vector_def)
qed

lemma exec_outcome:
  assumes "readable h c"
  shows "\<exists>r h'. exec h c = Some (r, h') \<and> extends h h' \<and>
     (\<forall>a. r = Inr (RVector a) \<longrightarrow>
        length (vectors h) \<le> a \<and> a < length (vectors h') \<and> self_data h' a \<noteq> None \<and>
        (\<forall>l. c = Construct l \<longrightarrow> vectors h' ! a = l) \<and>
        ((\<forall>l. c \<noteq> Construct l) \<longrightarrow> length (lists h) \<le> vectors h' ! a))"
proof (cases c)
  case (Construct l)
  with assms have "l < length (lists h)"
    by simp
  from heap_Vector_outcome [OF this] obtain r h' where
    "heap_Vector h l = Some (r, h')" "extends h h'"
    "\<forall>a. r = Inr a \<longrightarrow> length (vectors h) \<le> a \<and> a < length (vectors h') \<and>
        vectors h' ! a = l \<and> self_data h' a \<noteq> None"
    by blast
  then show ?thesis
    by (cases r) (simp_all add: Construct returns_vector_def)
next
  case (Neg v)
  with assms obtain xs where "self_data h v = Some xs"
    by auto
  from returns_vector_outcome [OF heap_neg_outcome [OF this]] show ?thesis
    by (simp add: Neg)
next
  case (Len v)
  with assms obtain xs where "self_data h v = Some xs"
    by auto
  then show ?thesis
    by (simp add: Len heap_len_def extends_refl)
next
  case (GetItem v i)
  with assms obtain xs where "self_data h v = Some xs"
    by auto
  then show ?thesis
    by (cases "Vector_getitem \<lparr>data = xs\<rparr> i") (simp_all add: GetItem heap_getitem_def extends_refl)
next
  case (Add v w)
  with assms obtain xs where "self_data h v = Some xs" "operand_ok h w"
    by auto
  from returns_vector_outcome [OF heap_add_outcome [OF this]] show ?thesis
    by (simp add: Add)
next
  case (Sub v w)
  with assms obtain xs where "self_data h v = Some xs" "operand_ok h w"
    by auto
  from returns_vector_outcome [OF heap_sub_outcome [OF this]] show ?thesis
    by (simp add: Sub)
next
  case (Mul v k)
  with assms obtain xs where "self_data h v = Some xs"
    by auto
  from returns_vector_outcome [OF heap_mul_outcome [OF this]] show ?thesis
    by (simp add: Mul)
next
  case (RMul v k)
  with assms obtain xs where "self_data h v = Some xs"
    by auto
  from returns_vector_outcome [OF heap_mul_outcome [OF this]] show ?thesis
    by (simp add: RMul heap_rmul_def)
next
  case (TrueDiv v k)
  with assms obtain xs where "self_data h v = Some xs"
    by auto
  from returns_vector_outcome [OF heap_truediv_outcome [OF this]] show ?thesis
    by (simp add: TrueDiv)
next
  case (MatMul v w)
  with assms obtain xs where "self_data h v = Some xs" "operand_ok h w"
    by auto
  from heap_matmul_reads [OF this] obtain r where "heap_matmul h v w = Some (r, h)"
    by blast
  then show ?thesis
    by (cases r) (simp_all add: MatMul extends_refl)
next
  case (Abs v)
  with assms obtain xs where "self_data h v = Some xs"
    by auto
  from heap_abs_reads [OF this] obtain r where "heap_abs h v = Some (r, h)"
    by blast
  then show ?thesis
    by (cases r) (simp_all add: Abs returns_float_def extends_refl)
next
  case (Normalize v)
  with assms obtain xs where "self_data h v = Some xs"
    by auto
  from returns_vector_outcome [OF heap_normalize_outcome [OF this]] show ?thesis
    by (simp add: Normalize)
next
  case (Distance v w)
  with assms obtain xs where "self_data h v = Some xs" "operand_ok h w"
    by auto
  from heap_distance_extends [OF this] obtain r h' where
    "heap_distance h v w = Some (r, h')" "extends h h'"
    by blast
  then show ?thesis
    by (cases r) (simp_all add: Distance returns_float_def)
qed

text \<open>
  Claim C8. A call of the constructor or of a method, given references to objects of the
  store, always has an outcome, and the store after the call extends the store before
  it: every list and every Vector that existed is still there, at the same address and
  unchanged, whether the call returned or raised, so the data of the operands is what it
  was. A Vector that is returned is a new object; its list is a new object too, except
  for the constructor, which keeps the list that it was given.
\<close>

theorem no_mutation:
  assumes "readable h c"
  shows "\<exists>r h'. exec h c = Some (r, h') \<and> extends h h' \<and>
     (\<forall>l d. list_at h l = Some d \<longrightarrow> list_at h' l = Some d) \<and>
     (\<forall>v xs. self_data h v = Some xs \<longrightarrow> self_data h' v = Some xs) \<and>
     (\<forall>a. r = Inr (RVector a) \<longrightarrow>
        length (vectors h) \<le> a \<and> a < length (vectors h') \<and> self_data h' a \<noteq> None \<and>
        (\<forall>l. c = Construct l \<longrightarrow> vectors h' ! a = l) \<and>
        ((\<forall>l. c \<noteq> Construct l) \<longrightarrow> length (lists h) \<le> vectors h' ! a))"
proof -
  from exec_outcome [OF assms] obtain r h' where
    e: "exec h c = Some (r, h')" and ext: "extends h h'" and
    new: "\<forall>a. r = Inr (RVector a) \<longrightarrow>
        length (vectors h) \<le> a \<and> a < length (vectors h') \<and> self_data h' a \<noteq> None \<and>
        (\<forall>l. c = Construct l \<longrightarrow> vectors h' ! a = l) \<and>
        ((\<forall>l. c \<noteq> Construct l) \<longrightarrow> length (lists h) \<le> vectors h' ! a)"
    by blast
  have "\<forall>l d. list_at h l = Some d \<longrightarrow> list_at h' l = Some d"
    using extends_list_at [OF ext] by blast
  moreover have "\<forall>v xs. self_data h v = Some xs \<longrightarrow> self_data h' v = Some xs"
    using extends_self_data [OF ext] by blast
  ultimately show ?thesis
    using e ext new by blast
qed

theorem no_mutation_witness:
  "readable \<lparr>lists = [[PyFloat (Finite False 0)]], vectors = [0]\<rparr> (Neg 0) \<and>
   exec \<lparr>lists = [[PyFloat (Finite False 0)]], vectors = [0]\<rparr> (Neg 0) =
     Some (Inr (RVector 1),
           \<lparr>lists = [[PyFloat (Finite False 0)], [PyFloat (Finite True 0)]], vectors = [0, 1]\<rparr>) \<and>
   readable \<lparr>lists = [[PyFloat (Finite False 0)]], vectors = [0]\<rparr> (TrueDiv 0 (Finite False 0)) \<and>
   exec \<lparr>lists = [[PyFloat (Finite False 0)]], vectors = [0]\<rparr> (TrueDiv 0 (Finite False 0)) =
     Some (Inl ZeroDivisionError, \<lparr>lists = [[PyFloat (Finite False 0)]], vectors = [0]\<rparr>) \<and>
   (\<exists>r h'. exec \<lparr>lists = [[PyFloat (Finite False 0)]], vectors = [0]\<rparr> (Neg 0) = Some (r, h') \<and>
      extends \<lparr>lists = [[PyFloat (Finite False 0)]], vectors = [0]\<rparr> h' \<and>
      self_data h' 0 = Some [Finite False 0])"
proof -
  define h0 where "h0 = \<lparr>lists = [[PyFloat (Finite False 0)]], vectors = [0]\<rparr>"
  have d: "self_data h0 0 = Some [Finite False 0]"
    by (simp add: h0_def self_data_def list_at_def)
  have r1: "readable h0 (Neg 0)" and r2: "readable h0 (TrueDiv 0 (Finite False 0))"
    by (simp_all add: d)
  have e1: "exec h0 (Neg 0) =
     Some (Inr (RVector 1),
           \<lparr>lists = [[PyFloat (Finite False 0)], [PyFloat (Finite True 0)]], vectors = [0, 1]\<rparr>)"
    by (simp add: returns_vector_def heap_neg_def d heap_Vector_of_closed Vector_of_def
        new_Vector_def)
      (simp add: h0_def)
  have e2: "exec h0 (TrueDiv 0 (Finite False 0)) = Some (Inl ZeroDivisionError, h0)"
    by (simp add: returns_vector_def heap_truediv_def d heap_Vector_of_result_def
        float_truediv_def)
  have "\<exists>r h'. exec h0 (Neg 0) = Some (r, h') \<and> extends h0 h' \<and>
      self_data h' 0 = Some [Finite False 0]"
    using no_mutation [OF r1] no_mutation [OF r2] d by blast
  with r1 r2 e1 e2 have
    "readable h0 (Neg 0) \<and>
     exec h0 (Neg 0) =
       Some (Inr (RVector 1),
             \<lparr>lists = [[PyFloat (Finite False 0)], [PyFloat (Finite True 0)]], vectors = [0, 1]\<rparr>) \<and>
     readable h0 (TrueDiv 0 (Finite False 0)) \<and>
     exec h0 (TrueDiv 0 (Finite False 0)) = Some (Inl ZeroDivisionError, h0) \<and>
     (\<exists>r h'. exec h0 (Neg 0) = Some (r, h') \<and> extends h0 h' \<and>
        self_data h' 0 = Some [Finite False 0])"
    by blast
  then show ?thesis
    unfolding h0_def .
qed

end
